theory Spec2Isabelle
  imports Main "HOL-Library.Word"
begin

section \<open>The dynamic istiod certificate provisioner (pkg/istiodcert/worker.go)\<close>

text \<open>
  A shallow embedding of \<^verbatim>\<open>worker.go\<close>. Go strings are byte sequences and are
  modelled as \<^typ>\<open>string\<close>; a nil pointer is \<^term>\<open>None\<close>; a slice is a list (a nil
  slice and an empty slice are both \<^term>\<open>[]\<close>, which the source never tells apart:
  it only takes \<^verbatim>\<open>len\<close> and appends). The mutex is taken and released around
  each operation; the operations are modelled as they run inside the critical section,
  one at a time. Calls to the logger return nothing and change nothing the provisioner
  reads, and are left out.
\<close>

subsection \<open>Types of the cert-manager and Kubernetes APIs, as far as the source uses them\<close>

text \<open>\<^verbatim>\<open>cmmeta.ObjectReference\<close>: the issuer reference.\<close>

record ObjectReference =
  ref_Name :: string
  ref_Kind :: string
  ref_Group :: string

text \<open>\<^verbatim>\<open>cmapi.CertificatePrivateKey\<close>; the rotation policy and the algorithm are string types.\<close>

record CertificatePrivateKey =
  RotationPolicy :: string
  Algorithm :: string
  Size :: int

definition RotationPolicyAlways :: string where
  "RotationPolicyAlways = ''Always''"

text \<open>
  \<^verbatim>\<open>cmapi.CertificateSpec\<close>: the nine fields that \<^verbatim>\<open>Reconcile\<close> sets, and five of
  the fields that it does not set (\<^verbatim>\<open>LiteralSubject\<close>, \<^verbatim>\<open>IPAddresses\<close>,
  \<^verbatim>\<open>EmailAddresses\<close>, \<^verbatim>\<open>IsCA\<close>, \<^verbatim>\<open>Usages\<close>), which a stored certificate may
  carry and which the composite literal of \<^verbatim>\<open>Reconcile\<close> leaves at their zero value,
  as it does the remaining fields of the Go struct. \<^verbatim>\<open>metav1.Duration\<close> wraps a
  \<^verbatim>\<open>time.Duration\<close>, an int64.
\<close>

record CertificateSpec =
  CommonName :: string
  DNSNames :: "string list"
  URIs :: "string list"
  SecretName :: string
  Duration :: "64 word option"
  RenewBefore :: "64 word option"
  PrivateKey :: "CertificatePrivateKey option"
  RevisionHistoryLimit :: "32 word option"
  IssuerRef :: ObjectReference
  LiteralSubject :: string
  IPAddresses :: "string list"
  EmailAddresses :: "string list"
  IsCA :: bool
  Usages :: "string list"

record ObjectMeta =
  meta_Name :: string
  meta_Namespace :: string
  ResourceVersion :: string

record CertificateStatus =
  Conditions :: "string list"

record Certificate =
  ObjectMeta :: ObjectMeta
  Spec :: CertificateSpec
  Status :: CertificateStatus

text \<open>The zero values of the structs, as Go fills in the fields a literal leaves out.\<close>

definition zero_ObjectReference :: ObjectReference where
  "zero_ObjectReference = \<lparr>ref_Name = [], ref_Kind = [], ref_Group = []\<rparr>"

definition zero_CertificateSpec :: CertificateSpec where
  "zero_CertificateSpec =
     \<lparr>CommonName = [], DNSNames = [], URIs = [], SecretName = [], Duration = None,
      RenewBefore = None, PrivateKey = None, RevisionHistoryLimit = None,
      IssuerRef = zero_ObjectReference, LiteralSubject = [], IPAddresses = [],
      EmailAddresses = [], IsCA = False, Usages = []\<rparr>"

definition zero_CertificateStatus :: CertificateStatus where
  "zero_CertificateStatus = \<lparr>Conditions = []\<rparr>"

text \<open>\<^verbatim>\<open>ctrl.Request\<close> (a \<^verbatim>\<open>types.NamespacedName\<close>) and \<^verbatim>\<open>ctrl.Result\<close>.\<close>

record Request =
  req_Name :: string
  req_Namespace :: string

record Result =
  Requeue :: bool
  RequeueAfter :: "64 word"

definition zero_Result :: Result where
  "zero_Result = \<lparr>Requeue = False, RequeueAfter = 0\<rparr>"

text \<open>\<^verbatim>\<open>event.GenericEvent\<close>: the trigger sent on the reconcile channel.\<close>

record GenericEvent =
  Object :: Certificate

subsection \<open>Errors\<close>

text \<open>
  A Go \<^verbatim>\<open>error\<close> is either a status error of the API machinery, which carries a reason,
  or a plain error made by \<^verbatim>\<open>fmt.Errorf\<close>. \<^verbatim>\<open>apierrors.IsNotFound\<close> tests the reason.
\<close>

datatype StatusReason =
  StatusReasonNotFound | StatusReasonAlreadyExists | StatusReasonBadRequest
  | StatusReasonConflict | StatusReasonInternalError

datatype go_error = StatusError StatusReason string | ErrorString string

fun Error :: "go_error \<Rightarrow> string" where
  "Error (StatusError _ msg) = msg"
| "Error (ErrorString msg) = msg"

fun IsNotFound :: "go_error \<Rightarrow> bool" where
  "IsNotFound (StatusError reason _) = (reason = StatusReasonNotFound)"
| "IsNotFound (ErrorString _) = False"

subsection \<open>The options\<close>

text \<open>
  Modelled from the spec: the struct \<^verbatim>\<open>Options\<close> is declared in another file of the
  package. The spec lists its content (target resource name and namespace, revision
  identifiers, additional DNS names, duration, renewal lead time, key algorithm, key
  size); the field names are those under which \<^verbatim>\<open>worker.go\<close> reads them. The two
  durations are \<^verbatim>\<open>time.Duration\<close> values; the key size is a Go \<^verbatim>\<open>int\<close>, on which
  no arithmetic is done.
\<close>

record Options =
  CertificateName :: string
  CertificateNamespace :: string
  IstioRevisions :: "string list"
  AdditionalDNSNames :: "string list"
  opts_Duration :: "64 word"
  opts_RenewBefore :: "64 word"
  CMKeyAlgorithm :: string
  KeySize :: int

subsection \<open>The certificate client\<close>

text \<open>
  \<^verbatim>\<open>cmclient.CertificateInterface\<close> is the typed client of the certificate store. Its
  methods are answered by the API server, which is outside the program: each is a
  function of the store's state \<^typ>\<open>'w\<close>, returning the answer and the next state. Only
  the three methods that the source calls are fields; the calls made are written to a
  trace, which also has constructors for the interface's other writing methods.
\<close>

record 'w CertificateInterface =
  Get :: "string \<Rightarrow> 'w \<Rightarrow> (go_error + Certificate) \<times> 'w"
  Create :: "Certificate \<Rightarrow> 'w \<Rightarrow> (go_error + Certificate) \<times> 'w"
  Update :: "Certificate \<Rightarrow> 'w \<Rightarrow> (go_error + Certificate) \<times> 'w"

datatype call =
  GetCall string
  | CreateCall Certificate
  | UpdateCall Certificate
  | UpdateStatusCall Certificate
  | PatchCall string string
  | DeleteCall string

type_synonym 'w store = "call list \<times> 'w"

definition call_Get ::
  "'w CertificateInterface \<Rightarrow> string \<Rightarrow> 'w store \<Rightarrow> (go_error + Certificate) \<times> 'w store" where
  "call_Get c name st =
     (case Get c name (snd st) of (r, w') \<Rightarrow> (r, (fst st @ [GetCall name], w')))"

definition call_Create ::
  "'w CertificateInterface \<Rightarrow> Certificate \<Rightarrow> 'w store \<Rightarrow> (go_error + Certificate) \<times> 'w store" where
  "call_Create c obj st =
     (case Create c obj (snd st) of (r, w') \<Rightarrow> (r, (fst st @ [CreateCall obj], w')))"

definition call_Update ::
  "'w CertificateInterface \<Rightarrow> Certificate \<Rightarrow> 'w store \<Rightarrow> (go_error + Certificate) \<times> 'w store" where
  "call_Update c obj st =
     (case Update c obj (snd st) of (r, w') \<Rightarrow> (r, (fst st @ [UpdateCall obj], w')))"

text \<open>The \<^verbatim>\<open>error\<close> of a Go result pair \<^verbatim>\<open>(value, err)\<close>: nil when the call succeeded.\<close>

fun err_of :: "go_error + 'a \<Rightarrow> go_error option" where
  "err_of (Inl e) = Some e"
| "err_of (Inr _) = None"

subsection \<open>makeDNSNamesFromRevisions\<close>

text \<open>
  The \<^verbatim>\<open>for ... range\<close> loop, with the slice \<^verbatim>\<open>dnsNames\<close> that it appends to as an
  accumulator.
\<close>

fun revisions_loop :: "string \<Rightarrow> string \<Rightarrow> string list \<Rightarrow> string list \<Rightarrow> string list" where
  "revisions_loop namespace defaultSAN [] dnsNames = dnsNames"
| "revisions_loop namespace defaultSAN (revision # rest) dnsNames =
     (if revision = ''default''
      then revisions_loop namespace defaultSAN rest (dnsNames @ [defaultSAN])
      else revisions_loop namespace defaultSAN rest
             (dnsNames @ [''istiod'' @ revision @ ''.'' @ namespace @ ''.svc'']))"

definition makeDNSNamesFromRevisions :: "string \<Rightarrow> string list \<Rightarrow> string \<times> string list" where
  "makeDNSNamesFromRevisions namespace istioRevisions =
     (let istioRevisions = (if length istioRevisions = 0 then [''default''] else istioRevisions);
          defaultSAN = ''istiod.'' @ namespace @ ''.svc'';
          dnsNames = revisions_loop namespace defaultSAN istioRevisions []
      in (defaultSAN, dnsNames))"

text \<open>
  The naming rule in the words of the specification, to compare the loop with: the
  revision \<^verbatim>\<open>default\<close> gives \<^verbatim>\<open>istiod.<ns>.svc\<close>, any other revision \<^verbatim>\<open>r\<close> gives
  \<^verbatim>\<open>istiod<r>.<ns>.svc\<close>.
\<close>

definition spec_revision_name :: "string \<Rightarrow> string \<Rightarrow> string" where
  "spec_revision_name ns r =
     (if r = ''default'' then ''istiod.'' @ ns @ ''.svc'' else ''istiod'' @ r @ ''.'' @ ns @ ''.svc'')"

subsection \<open>The provisioner\<close>

text \<open>
  The struct \<^verbatim>\<open>DynamicIstiodCertProvisioner\<close>. The channel \<^verbatim>\<open>reconcileChan\<close> is the
  sequence of events sent on it so far, oldest first. The logger and the mutex have no
  field; the notifications of \<^verbatim>\<open>issuerChangeChan\<close> are the arguments of
  \<^verbatim>\<open>handleNewIssuer\<close>.
\<close>

record 'w DynamicIstiodCertProvisioner =
  certManagerClient :: "'w CertificateInterface"
  opts :: Options
  initialIssuerRef :: "ObjectReference option"
  issuerRef :: "ObjectReference option"
  reconcileChan :: "GenericEvent list"
  trustDomain :: string

text \<open>
  \<^verbatim>\<open>New\<close>. Its first argument is what \<^verbatim>\<open>cmversioned.NewForConfig(restConfig)\<close>
  returns: an error, or the client set, of which the source uses
  \<^verbatim>\<open>CertmanagerV1().Certificates(namespace)\<close>. The third argument is what the notifier's
  \<^verbatim>\<open>InitialIssuer()\<close> returns.
\<close>

type_synonym 'w Clientset = "string \<Rightarrow> 'w CertificateInterface"

definition New ::
  "go_error + 'w Clientset \<Rightarrow> Options \<Rightarrow> ObjectReference option \<Rightarrow> string
     \<Rightarrow> go_error + 'w DynamicIstiodCertProvisioner" where
  "New newForConfig options initialIssuer td =
     (case newForConfig of
        Inl err \<Rightarrow> Inl (ErrorString (''failed to build cert-manager client: '' @ Error err))
      | Inr cmClient \<Rightarrow>
          Inr \<lparr>certManagerClient = cmClient (CertificateNamespace options),
               opts = options,
               initialIssuerRef = initialIssuer,
               issuerRef = initialIssuer,
               reconcileChan = [],
               trustDomain = td\<rparr>)"

definition handleNewIssuer ::
  "'w DynamicIstiodCertProvisioner \<Rightarrow> ObjectReference option \<Rightarrow> 'w DynamicIstiodCertProvisioner" where
  "handleNewIssuer dicp newIssuer =
     (if newIssuer = None \<and> initialIssuerRef dicp \<noteq> None
      then dicp\<lparr>issuerRef := initialIssuerRef dicp\<rparr>
      else
        (let dicp1 = dicp\<lparr>issuerRef := newIssuer\<rparr>
         in dicp1\<lparr>reconcileChan := reconcileChan dicp1 @
              [\<lparr>Object =
                 \<lparr>ObjectMeta = \<lparr>meta_Name = CertificateName (opts dicp1),
                                meta_Namespace = CertificateNamespace (opts dicp1),
                                ResourceVersion = []\<rparr>,
                  Spec = zero_CertificateSpec,
                  Status = zero_CertificateStatus\<rparr>\<rparr>]\<rparr>))"

text \<open>
  Lines 187 to 209 of \<^verbatim>\<open>Reconcile\<close>: the desired specification, from the provisioner,
  the issuer reference that \<^verbatim>\<open>dicp.issuerRef\<close> points to, and the request.
\<close>

definition desiredSpec ::
  "'w DynamicIstiodCertProvisioner \<Rightarrow> ObjectReference \<Rightarrow> Request \<Rightarrow> CertificateSpec" where
  "desiredSpec dicp ref req =
     (let spiffeID = ''spiffe://'' @ trustDomain dicp @ ''/ns/'' @ req_Namespace req
                       @ ''/sa/istiod-service-account'';
          (commonName, dnsNames) =
             makeDNSNamesFromRevisions (req_Namespace req) (IstioRevisions (opts dicp));
          dnsNames = (if length (AdditionalDNSNames (opts dicp)) > 0
                      then dnsNames @ AdditionalDNSNames (opts dicp) else dnsNames)
      in \<lparr>CommonName = commonName,
          DNSNames = dnsNames,
          URIs = [spiffeID],
          SecretName = ''istiod-tls'',
          Duration = Some (opts_Duration (opts dicp)),
          RenewBefore = Some (opts_RenewBefore (opts dicp)),
          PrivateKey = Some \<lparr>RotationPolicy = RotationPolicyAlways,
                             Algorithm = CMKeyAlgorithm (opts dicp),
                             Size = KeySize (opts dicp)\<rparr>,
          RevisionHistoryLimit = Some 1,
          IssuerRef = ref,
          LiteralSubject = [],
          IPAddresses = [],
          EmailAddresses = [],
          IsCA = False,
          Usages = []\<rparr>)"

definition Reconcile ::
  "'w DynamicIstiodCertProvisioner \<Rightarrow> Request \<Rightarrow> 'w store
     \<Rightarrow> (Result \<times> go_error option) \<times> 'w store" where
  "Reconcile dicp req st =
     (case issuerRef dicp of
        None \<Rightarrow> ((zero_Result, None), st)
      | Some ref \<Rightarrow>
          (case call_Get (certManagerClient dicp) (req_Name req) st of
             (Inl err, st1) \<Rightarrow>
               if \<not> IsNotFound err
               then ((zero_Result, Some (ErrorString (''failed to fetch cert: '' @ Error err))), st1)
               else
                 (let cert = \<lparr>ObjectMeta = \<lparr>meta_Name = req_Name req,
                                            meta_Namespace = req_Namespace req,
                                            ResourceVersion = []\<rparr>,
                              Spec = desiredSpec dicp ref req,
                              Status = zero_CertificateStatus\<rparr>
                  in case call_Create (certManagerClient dicp) cert st1 of
                       (r, st2) \<Rightarrow> ((zero_Result, err_of r), st2))
           | (Inr cert, st1) \<Rightarrow>
               (let cert1 = cert\<lparr>Spec := desiredSpec dicp ref req\<rparr>
                in case call_Update (certManagerClient dicp) cert1 st1 of
                     (r, st2) \<Rightarrow> ((zero_Result, err_of r), st2))))"

text \<open>
  \<^verbatim>\<open>AddControllersToManager\<close> registers two functions with the controller builder: the
  predicate that selects the events of the one certificate, and the map function that
  turns an event of \<^verbatim>\<open>reconcileChan\<close> into requests.
\<close>

definition certPredicate :: "'w DynamicIstiodCertProvisioner \<Rightarrow> Certificate \<Rightarrow> bool" where
  "certPredicate dicp obj =
     (meta_Name (ObjectMeta obj) = CertificateName (opts dicp)
      \<and> meta_Namespace (ObjectMeta obj) = CertificateNamespace (opts dicp))"

definition enqueueRequests :: "'w DynamicIstiodCertProvisioner \<Rightarrow> Certificate \<Rightarrow> Request list" where
  "enqueueRequests dicp obj =
     [\<lparr>req_Name = CertificateName (opts dicp),
       req_Namespace = CertificateNamespace (opts dicp)\<rparr>]"

subsection \<open>Reading a trace\<close>

text \<open>The certificates that a trace of calls writes to the store, in the order of the calls.\<close>

fun writes :: "call list \<Rightarrow> Certificate list" where
  "writes [] = []"
| "writes (CreateCall c # cs) = c # writes cs"
| "writes (UpdateCall c # cs) = c # writes cs"
| "writes (UpdateStatusCall c # cs) = c # writes cs"
| "writes (GetCall _ # cs) = writes cs"
| "writes (PatchCall _ _ # cs) = writes cs"
| "writes (DeleteCall _ # cs) = writes cs"

subsection \<open>An in-memory client set and concrete inputs\<close>

text \<open>
  A client set over a list of stored certificates, in the manner of the object tracker
  behind a fake client set: the client of a namespace reads and writes the certificates
  of that namespace only, and refuses an object of another namespace.
\<close>

definition cert_at :: "string \<Rightarrow> string \<Rightarrow> Certificate \<Rightarrow> bool" where
  "cert_at ns name c = (meta_Namespace (ObjectMeta c) = ns \<and> meta_Name (ObjectMeta c) = name)"

definition fake_Certificates :: "Certificate list Clientset" where
  "fake_Certificates ns =
     \<lparr>Get = (\<lambda>name w.
         case find (cert_at ns name) w of
           None \<Rightarrow> (Inl (StatusError StatusReasonNotFound ''certificate not found''), w)
         | Some c \<Rightarrow> (Inr c, w)),
      Create = (\<lambda>obj w.
         if meta_Namespace (ObjectMeta obj) \<noteq> ns
         then (Inl (StatusError StatusReasonBadRequest
                      ''request namespace does not match object namespace''), w)
         else if find (cert_at ns (meta_Name (ObjectMeta obj))) w \<noteq> None
         then (Inl (StatusError StatusReasonAlreadyExists ''certificate already exists''), w)
         else (Inr obj, w @ [obj])),
      Update = (\<lambda>obj w.
         if meta_Namespace (ObjectMeta obj) \<noteq> ns
         then (Inl (StatusError StatusReasonBadRequest
                      ''request namespace does not match object namespace''), w)
         else if find (cert_at ns (meta_Name (ObjectMeta obj))) w = None
         then (Inl (StatusError StatusReasonNotFound ''certificate not found''), w)
         else (Inr obj,
               map (\<lambda>c. if cert_at ns (meta_Name (ObjectMeta obj)) c then obj else c) w))\<rparr>"

text \<open>A client set whose store cannot be reached: every call fails with an internal error.\<close>

definition failing_Certificates :: "unit Clientset" where
  "failing_Certificates ns =
     \<lparr>Get = (\<lambda>name w. (Inl (StatusError StatusReasonInternalError ''store unavailable''), w)),
      Create = (\<lambda>obj w. (Inl (StatusError StatusReasonInternalError ''store unavailable''), w)),
      Update = (\<lambda>obj w. (Inl (StatusError StatusReasonInternalError ''store unavailable''), w))\<rparr>"

definition ex_opts :: Options where
  "ex_opts =
     \<lparr>CertificateName = ''istiod-dynamic'',
      CertificateNamespace = ''istio-system'',
      IstioRevisions = [''default'', ''canary''],
      AdditionalDNSNames = [''extra.example.com''],
      opts_Duration = 3600,
      opts_RenewBefore = 1800,
      CMKeyAlgorithm = ''RSA'',
      KeySize = 2048\<rparr>"

definition ex_issuer :: ObjectReference where
  "ex_issuer = \<lparr>ref_Name = ''first-issuer'', ref_Kind = ''Issuer'', ref_Group = ''cert-manager.io''\<rparr>"

definition ex_issuer2 :: ObjectReference where
  "ex_issuer2 = \<lparr>ref_Name = ''second-issuer'', ref_Kind = ''ClusterIssuer'', ref_Group = ''cert-manager.io''\<rparr>"

text \<open>The provisioner that \<^const>\<open>New\<close> builds over the in-memory client set.\<close>

definition ex_dicp :: "Certificate list DynamicIstiodCertProvisioner" where
  "ex_dicp =
     \<lparr>certManagerClient = fake_Certificates ''istio-system'',
      opts = ex_opts,
      initialIssuerRef = Some ex_issuer,
      issuerRef = Some ex_issuer,
      reconcileChan = [],
      trustDomain = ''cluster.local''\<rparr>"

definition ex_req :: Request where
  "ex_req = \<lparr>req_Name = ''istiod-dynamic'', req_Namespace = ''istio-system''\<rparr>"

text \<open>A request for the configured name in a namespace other than the configured one.\<close>

definition other_req :: Request where
  "other_req = \<lparr>req_Name = ''istiod-dynamic'', req_Namespace = ''other''\<rparr>"

text \<open>A certificate of the configured identity, as the store holds it before a reconcile.\<close>

definition stored_cert :: Certificate where
  "stored_cert =
     \<lparr>ObjectMeta = \<lparr>meta_Name = ''istiod-dynamic'', meta_Namespace = ''istio-system'',
                    ResourceVersion = ''41''\<rparr>,
      Spec = zero_CertificateSpec\<lparr>CommonName := ''old.example.com'', SecretName := ''old-secret'',
               IPAddresses := [''10.0.0.1''], IsCA := True, Usages := [''cert sign'']\<rparr>,
      Status = \<lparr>Conditions = [''Ready'']\<rparr>\<rparr>"

text \<open>
  A client set that reads like the in-memory one and whose updates are all refused with
  a conflict, as for an object changed since it was read.
\<close>

definition conflicting_Certificates :: "Certificate list Clientset" where
  "conflicting_Certificates ns =
     (fake_Certificates ns)
       \<lparr>Update := (\<lambda>obj w.
          (Inl (StatusError StatusReasonConflict ''the object has been modified''), w))\<rparr>"

definition conflicting_dicp :: "Certificate list DynamicIstiodCertProvisioner" where
  "conflicting_dicp =
     \<lparr>certManagerClient = conflicting_Certificates ''istio-system'',
      opts = ex_opts,
      initialIssuerRef = Some ex_issuer,
      issuerRef = Some ex_issuer,
      reconcileChan = [],
      trustDomain = ''cluster.local''\<rparr>"

text \<open>A provisioner over the unreachable store, with no initial issuer.\<close>

definition failing_dicp :: "unit DynamicIstiodCertProvisioner" where
  "failing_dicp =
     \<lparr>certManagerClient = failing_Certificates ''istio-system'',
      opts = ex_opts,
      initialIssuerRef = None,
      issuerRef = Some ex_issuer2,
      reconcileChan = [],
      trustDomain = ''cluster.local''\<rparr>"

text \<open>The specification and the certificate expected for \<^const>\<open>ex_dicp\<close> and \<^const>\<open>ex_req\<close>.\<close>

definition ex_spec :: CertificateSpec where
  "ex_spec =
     \<lparr>CommonName = ''istiod.istio-system.svc'',
      DNSNames = [''istiod.istio-system.svc'', ''istiodcanary.istio-system.svc'',
                  ''extra.example.com''],
      URIs = [''spiffe://cluster.local/ns/istio-system/sa/istiod-service-account''],
      SecretName = ''istiod-tls'',
      Duration = Some 3600,
      RenewBefore = Some 1800,
      PrivateKey = Some \<lparr>RotationPolicy = ''Always'', Algorithm = ''RSA'', Size = 2048\<rparr>,
      RevisionHistoryLimit = Some 1,
      IssuerRef = ex_issuer,
      LiteralSubject = [],
      IPAddresses = [],
      EmailAddresses = [],
      IsCA = False,
      Usages = []\<rparr>"

definition ex_created :: Certificate where
  "ex_created =
     \<lparr>ObjectMeta = \<lparr>meta_Name = ''istiod-dynamic'', meta_Namespace = ''istio-system'',
                    ResourceVersion = []\<rparr>,
      Spec = ex_spec,
      Status = \<lparr>Conditions = []\<rparr>\<rparr>"

text \<open>A request for another name in the configured namespace, and the certificate it leads to.\<close>

definition other_name_req :: Request where
  "other_name_req = \<lparr>req_Name = ''ingress-cert'', req_Namespace = ''istio-system''\<rparr>"

definition other_name_created :: Certificate where
  "other_name_created =
     \<lparr>ObjectMeta = \<lparr>meta_Name = ''ingress-cert'', meta_Namespace = ''istio-system'',
                    ResourceVersion = []\<rparr>,
      Spec = ex_spec,
      Status = \<lparr>Conditions = []\<rparr>\<rparr>"

section \<open>Properties of makeDNSNamesFromRevisions\<close>

lemma revisions_loop_map:
  "revisions_loop ns (''istiod.'' @ ns @ ''.svc'') revs acc = acc @ map (spec_revision_name ns) revs"
  by (induction revs arbitrary: acc) (simp_all add: spec_revision_name_def)


section \<open>Properties of handleNewIssuer\<close>

lemma handleNewIssuer_initialIssuerRef:
  "initialIssuerRef (handleNewIssuer dicp u) = initialIssuerRef dicp"
  by (simp add: handleNewIssuer_def Let_def)

lemma foldl_handleNewIssuer_initialIssuerRef:
  "initialIssuerRef (foldl handleNewIssuer dicp us) = initialIssuerRef dicp"
  by (induction us arbitrary: dicp) (simp_all add: handleNewIssuer_initialIssuerRef)

lemma handleNewIssuer_issuerRef_present:
  "initialIssuerRef dicp \<noteq> None \<Longrightarrow> issuerRef (handleNewIssuer dicp u) \<noteq> None"
  by (cases u) (simp_all add: handleNewIssuer_def Let_def)

lemma foldl_handleNewIssuer_issuerRef_present:
  assumes "initialIssuerRef dicp \<noteq> None" and "issuerRef dicp \<noteq> None"
  shows "issuerRef (foldl handleNewIssuer dicp us) \<noteq> None"
proof (induction us rule: rev_induct)
  case Nil
  show ?case using assms(2) by simp
next
  case (snoc u us)
  have "initialIssuerRef (foldl handleNewIssuer dicp us) \<noteq> None"
    using assms(1) by (simp add: foldl_handleNewIssuer_initialIssuerRef)
  then show ?case by (simp add: handleNewIssuer_issuerRef_present)
qed


text \<open>
  The event that \<^const>\<open>handleNewIssuer\<close> sends passes the predicate registered with the
  controller, and the request made from it names the configured certificate.
\<close>

lemma handleNewIssuer_event_selected:
  "certPredicate dicp (Object (last (reconcileChan (handleNewIssuer dicp (Some u)))))
   \<and> enqueueRequests dicp obj =
       [\<lparr>req_Name = CertificateName (opts dicp), req_Namespace = CertificateNamespace (opts dicp)\<rparr>]"
  by (simp add: handleNewIssuer_def certPredicate_def enqueueRequests_def Let_def)

section \<open>Properties of Reconcile\<close>

lemma Reconcile_absent:
  "issuerRef dicp = None \<Longrightarrow> Reconcile dicp req st = ((zero_Result, None), st)"
  by (simp add: Reconcile_def)

lemma Reconcile_fetch_failed:
  assumes "issuerRef dicp = Some ref"
    and "Get (certManagerClient dicp) (req_Name req) w = (Inl err, w1)"
    and "\<not> IsNotFound err"
  shows "Reconcile dicp req (cs, w) =
           ((zero_Result, Some (ErrorString (''failed to fetch cert: '' @ Error err))),
            (cs @ [GetCall (req_Name req)], w1))"
  using assms by (simp add: Reconcile_def call_Get_def)

lemma Reconcile_not_found:
  assumes "issuerRef dicp = Some ref"
    and "Get (certManagerClient dicp) (req_Name req) w = (Inl err, w1)"
    and "IsNotFound err"
    and "cert = \<lparr>ObjectMeta = \<lparr>meta_Name = req_Name req, meta_Namespace = req_Namespace req,
                                ResourceVersion = []\<rparr>,
                  Spec = desiredSpec dicp ref req, Status = zero_CertificateStatus\<rparr>"
  shows "Reconcile dicp req (cs, w) =
           ((zero_Result, err_of (fst (Create (certManagerClient dicp) cert w1))),
            (cs @ [GetCall (req_Name req), CreateCall cert],
             snd (Create (certManagerClient dicp) cert w1)))"
  using assms by (simp add: Reconcile_def call_Get_def call_Create_def Let_def case_prod_beta)

lemma Reconcile_found:
  assumes "issuerRef dicp = Some ref"
    and "Get (certManagerClient dicp) (req_Name req) w = (Inr cert, w1)"
    and "cert1 = cert\<lparr>Spec := desiredSpec dicp ref req\<rparr>"
  shows "Reconcile dicp req (cs, w) =
           ((zero_Result, err_of (fst (Update (certManagerClient dicp) cert1 w1))),
            (cs @ [GetCall (req_Name req), UpdateCall cert1],
             snd (Update (certManagerClient dicp) cert1 w1)))"
  using assms by (simp add: Reconcile_def call_Get_def call_Update_def Let_def case_prod_beta)

lemma Reconcile_trace_cases:
  assumes "issuerRef dicp = Some ref"
  shows "fst (snd (Reconcile dicp req ([], w))) = [GetCall (req_Name req)]
       \<or> fst (snd (Reconcile dicp req ([], w))) =
           [GetCall (req_Name req),
            CreateCall
              \<lparr>ObjectMeta = \<lparr>meta_Name = req_Name req, meta_Namespace = req_Namespace req,
                             ResourceVersion = []\<rparr>,
               Spec = desiredSpec dicp ref req, Status = zero_CertificateStatus\<rparr>]
       \<or> (\<exists>cert w1. Get (certManagerClient dicp) (req_Name req) w = (Inr cert, w1)
            \<and> fst (snd (Reconcile dicp req ([], w))) =
                [GetCall (req_Name req), UpdateCall (cert\<lparr>Spec := desiredSpec dicp ref req\<rparr>)])"
proof (cases "Get (certManagerClient dicp) (req_Name req) w")
  case (Pair r w1)
  show ?thesis
  proof (cases r)
    case (Inl err)
    show ?thesis
    proof (cases "IsNotFound err")
      case True
      from Reconcile_not_found [OF assms _ True refl, of req w w1 "[]"] Pair Inl
      show ?thesis by simp
    next
      case False
      from Reconcile_fetch_failed [OF assms _ False, of req w w1 "[]"] Pair Inl
      show ?thesis by simp
    qed
  next
    case (Inr cert)
    from Reconcile_found [OF assms _ refl, of req w cert w1 "[]"] Pair Inr
    show ?thesis by simp
  qed
qed

lemma Reconcile_writes_Spec:
  assumes "issuerRef dicp = Some ref"
    and "c \<in> set (writes (fst (snd (Reconcile dicp req ([], w)))))"
  shows "Spec c = desiredSpec dicp ref req"
  using Reconcile_trace_cases [OF assms(1), of req w] assms(2) by auto

lemma desiredSpec_fields:
  "CommonName (desiredSpec dicp ref req) = ''istiod.'' @ req_Namespace req @ ''.svc''"
  "DNSNames (desiredSpec dicp ref req) =
     snd (makeDNSNamesFromRevisions (req_Namespace req) (IstioRevisions (opts dicp)))
       @ AdditionalDNSNames (opts dicp)"
  "URIs (desiredSpec dicp ref req) =
     [''spiffe://'' @ trustDomain dicp @ ''/ns/'' @ req_Namespace req @ ''/sa/istiod-service-account'']"
  "SecretName (desiredSpec dicp ref req) = ''istiod-tls''"
  "Duration (desiredSpec dicp ref req) = Some (opts_Duration (opts dicp))"
  "RenewBefore (desiredSpec dicp ref req) = Some (opts_RenewBefore (opts dicp))"
  "PrivateKey (desiredSpec dicp ref req) =
     Some \<lparr>RotationPolicy = ''Always'', Algorithm = CMKeyAlgorithm (opts dicp),
           Size = KeySize (opts dicp)\<rparr>"
  "RevisionHistoryLimit (desiredSpec dicp ref req) = Some 1"
  "IssuerRef (desiredSpec dicp ref req) = ref"
  by (simp_all add: desiredSpec_def makeDNSNamesFromRevisions_def Let_def RotationPolicyAlways_def
        split: prod.splits)

lemma desiredSpec_cong:
  assumes "opts d1 = opts d2" and "trustDomain d1 = trustDomain d2"
    and "req_Namespace r1 = req_Namespace r2"
  shows "desiredSpec d1 ref r1 = desiredSpec d2 ref r2"
  unfolding desiredSpec_def assms by (rule refl)

lemma desiredSpec_opts_identity:
  "desiredSpec (dicp\<lparr>opts := (opts dicp)\<lparr>CertificateName := cn, CertificateNamespace := cns\<rparr>\<rparr>) ref req
     = desiredSpec dicp ref req"
  by (simp add: desiredSpec_def cong: if_cong)

lemma Reconcile_opts_identity:
  "Reconcile (dicp\<lparr>opts := (opts dicp)\<lparr>CertificateName := cn, CertificateNamespace := cns\<rparr>\<rparr>) req st
     = Reconcile dicp req st"
  by (simp add: Reconcile_def desiredSpec_opts_identity
        cong: option.case_cong prod.case_cong sum.case_cong if_cong)


lemma desiredSpec_unset_fields:
  "LiteralSubject (desiredSpec dicp ref req) = []"
  "IPAddresses (desiredSpec dicp ref req) = []"
  "EmailAddresses (desiredSpec dicp ref req) = []"
  "IsCA (desiredSpec dicp ref req) = False"
  "Usages (desiredSpec dicp ref req) = []"
  by (simp_all add: desiredSpec_def Let_def split: prod.splits)

lemma Certificate_Spec_update:
  "cert\<lparr>Spec := sp\<rparr> = \<lparr>ObjectMeta = ObjectMeta cert, Spec = sp, Status = Status cert\<rparr>"
  by (cases cert) simp

lemma New_binds_client:
  "New (Inr cmClient) options init td = Inr d \<Longrightarrow>
     certManagerClient d = cmClient (CertificateNamespace options)"
  by (auto simp: New_def)

lemma New_CertificateName_irrelevant:
  assumes "New (Inr cmClient) options init td = Inr d"
    and "New (Inr cmClient) (options\<lparr>CertificateName := cn\<rparr>) init td = Inr d'"
  shows "Reconcile d' req st = Reconcile d req st"
proof -
  from assms have "d' = d\<lparr>opts := (opts d)\<lparr>CertificateName := cn\<rparr>\<rparr>"
    by (auto simp: New_def)
  then show ?thesis
    using Reconcile_opts_identity
            [where dicp = d and cn = cn and cns = "CertificateNamespace (opts d)"
               and req = req and st = st]
    by simp
qed

section \<open>The concrete inputs evaluated\<close>

lemmas ex_defs =
  ex_dicp_def ex_opts_def ex_issuer_def ex_issuer2_def ex_req_def other_req_def stored_cert_def
  failing_dicp_def ex_spec_def ex_created_def fake_Certificates_def failing_Certificates_def
  cert_at_def zero_CertificateSpec_def zero_CertificateStatus_def zero_ObjectReference_def
  zero_Result_def

lemma ex_desiredSpec: "desiredSpec ex_dicp ex_issuer ex_req = ex_spec"
  by (simp add: desiredSpec_def makeDNSNamesFromRevisions_def Let_def RotationPolicyAlways_def
        ex_dicp_def ex_opts_def ex_req_def ex_spec_def)

lemma ex_issuerRef: "issuerRef ex_dicp = Some ex_issuer"
  by (simp add: ex_dicp_def)

lemma ex_first_Reconcile:
  "Reconcile ex_dicp ex_req ([], []) =
     ((zero_Result, None), ([GetCall ''istiod-dynamic'', CreateCall ex_created], [ex_created]))"
proof -
  have g: "Get (certManagerClient ex_dicp) (req_Name ex_req) [] =
             (Inl (StatusError StatusReasonNotFound ''certificate not found''), [])"
    by (simp add: ex_dicp_def fake_Certificates_def)
  from Reconcile_not_found [OF ex_issuerRef g _ refl, of "[]"] show ?thesis
    by (simp add: ex_desiredSpec) (simp add: ex_defs)
qed

lemma ex_second_Reconcile:
  "Reconcile ex_dicp ex_req ([], [ex_created]) =
     ((zero_Result, None), ([GetCall ''istiod-dynamic'', UpdateCall ex_created], [ex_created]))"
proof -
  have g: "Get (certManagerClient ex_dicp) (req_Name ex_req) [ex_created] =
             (Inr ex_created, [ex_created])"
    by (simp add: ex_dicp_def fake_Certificates_def cert_at_def ex_created_def ex_req_def)
  from Reconcile_found [OF ex_issuerRef g refl, of "[]"] show ?thesis
    by (simp add: ex_desiredSpec) (simp add: ex_defs)
qed

lemma other_Reconcile:
  "Reconcile ex_dicp other_req ([], [stored_cert]) =
     ((zero_Result, None),
      ([GetCall ''istiod-dynamic'',
        UpdateCall (stored_cert\<lparr>Spec := desiredSpec ex_dicp ex_issuer other_req\<rparr>)],
       [stored_cert\<lparr>Spec := desiredSpec ex_dicp ex_issuer other_req\<rparr>]))"
proof -
  have g: "Get (certManagerClient ex_dicp) (req_Name other_req) [stored_cert] =
             (Inr stored_cert, [stored_cert])"
    by (simp add: ex_dicp_def fake_Certificates_def cert_at_def stored_cert_def other_req_def)
  from Reconcile_found [OF ex_issuerRef g refl, of "[]"] show ?thesis
    by (simp add: other_req_def)
       (simp add: ex_dicp_def fake_Certificates_def cert_at_def stored_cert_def zero_Result_def)
qed

lemma other_name_desiredSpec: "desiredSpec ex_dicp ex_issuer other_name_req = ex_spec"
  by (simp add: desiredSpec_def makeDNSNamesFromRevisions_def Let_def RotationPolicyAlways_def
        ex_dicp_def ex_opts_def other_name_req_def ex_spec_def)

text \<open>
  The request for the other namespace over an empty store: the client of the configured
  namespace refuses the create, and the store stays empty.
\<close>

lemma other_Reconcile_refused:
  "Reconcile ex_dicp other_req ([], []) =
     ((\<lparr>Requeue = False, RequeueAfter = 0\<rparr>,
       Some (StatusError StatusReasonBadRequest
               ''request namespace does not match object namespace'')),
      ([GetCall ''istiod-dynamic'',
        CreateCall \<lparr>ObjectMeta = \<lparr>meta_Name = ''istiod-dynamic'', meta_Namespace = ''other'',
                                   ResourceVersion = []\<rparr>,
                     Spec = desiredSpec ex_dicp ex_issuer other_req,
                     Status = zero_CertificateStatus\<rparr>],
       []))"
proof -
  have g: "Get (certManagerClient ex_dicp) (req_Name other_req) [] =
             (Inl (StatusError StatusReasonNotFound ''certificate not found''), [])"
    by (simp add: ex_dicp_def fake_Certificates_def)
  from Reconcile_not_found [OF ex_issuerRef g _ refl, of "[]"] show ?thesis
    by (simp add: other_req_def)
       (simp add: ex_dicp_def fake_Certificates_def zero_Result_def)
qed

section \<open>The claims\<close>

text \<open>
  Claim C1. In every state in which an initial issuer reference exists, \<^const>\<open>handleNewIssuer\<close>
  with an absent update sets the active issuer reference to the initial reference and
  sends nothing on the reconcile channel; nothing else of the provisioner changes.
\<close>

theorem handleNewIssuer_absent_restores_initial:
  assumes "initialIssuerRef dicp \<noteq> None"
  shows "issuerRef (handleNewIssuer dicp None) = initialIssuerRef dicp
       \<and> reconcileChan (handleNewIssuer dicp None) = reconcileChan dicp
       \<and> handleNewIssuer dicp None = dicp\<lparr>issuerRef := initialIssuerRef dicp\<rparr>"
  using assms by (simp add: handleNewIssuer_def)

theorem handleNewIssuer_absent_restores_initial_witness:
  "initialIssuerRef (handleNewIssuer ex_dicp (Some ex_issuer2)) \<noteq> None
   \<and> issuerRef (handleNewIssuer ex_dicp (Some ex_issuer2)) = Some ex_issuer2
   \<and> issuerRef (handleNewIssuer (handleNewIssuer ex_dicp (Some ex_issuer2)) None) = Some ex_issuer
   \<and> length (reconcileChan (handleNewIssuer (handleNewIssuer ex_dicp (Some ex_issuer2)) None)) = 1"
  using handleNewIssuer_absent_restores_initial [of "handleNewIssuer ex_dicp (Some ex_issuer2)"]
  by (simp add: handleNewIssuer_def ex_dicp_def)

text \<open>
  Claim C2. For every update \<open>u\<close> that is not absent, \<^const>\<open>handleNewIssuer\<close> sets the
  active issuer reference to \<open>u\<close> and sends exactly one event on the reconcile channel,
  whose object carries the configured certificate name and namespace.
\<close>

theorem handleNewIssuer_update_triggers:
  "issuerRef (handleNewIssuer dicp (Some u)) = Some u
   \<and> reconcileChan (handleNewIssuer dicp (Some u)) =
       reconcileChan dicp @
         [\<lparr>Object = \<lparr>ObjectMeta = \<lparr>meta_Name = CertificateName (opts dicp),
                                     meta_Namespace = CertificateNamespace (opts dicp),
                                     ResourceVersion = []\<rparr>,
                       Spec = zero_CertificateSpec, Status = zero_CertificateStatus\<rparr>\<rparr>]"
  by (simp add: handleNewIssuer_def)

text \<open>
  Claim C3. For every namespace and every list of revisions, the DNS names returned by
  \<^const>\<open>makeDNSNamesFromRevisions\<close> are the revisions mapped in input order by the naming
  rule of the specification (order and duplicates kept), an empty list of revisions
  standing for the list with the single revision \<^verbatim>\<open>default\<close>; for the empty list the
  DNS names are exactly \<^verbatim>\<open>istiod.<ns>.svc\<close>.
\<close>

theorem makeDNSNamesFromRevisions_names:
  "snd (makeDNSNamesFromRevisions ns revisions) =
     map (spec_revision_name ns) (if revisions = [] then [''default''] else revisions)
   \<and> snd (makeDNSNamesFromRevisions ns []) = [''istiod.'' @ ns @ ''.svc'']"
  using revisions_loop_map [of ns revisions "[]"] revisions_loop_map [of ns "[''default'']" "[]"]
  by (simp add: makeDNSNamesFromRevisions_def Let_def spec_revision_name_def)

text \<open>
  Claim C4. For every namespace and every list of revisions, with or without
  \<^verbatim>\<open>default\<close> in it, the common name returned by \<^const>\<open>makeDNSNamesFromRevisions\<close> is
  \<^verbatim>\<open>istiod.<ns>.svc\<close>; for the namespace \<^verbatim>\<open>foo\<close> and the revisions \<^verbatim>\<open>default\<close>,
  \<^verbatim>\<open>canary\<close> the result is the common name \<^verbatim>\<open>istiod.foo.svc\<close> and the DNS names
  \<^verbatim>\<open>istiod.foo.svc\<close>, \<^verbatim>\<open>istiodcanary.foo.svc\<close>, in that order.
\<close>

theorem makeDNSNamesFromRevisions_commonName:
  "fst (makeDNSNamesFromRevisions ns revisions) = ''istiod.'' @ ns @ ''.svc''
   \<and> makeDNSNamesFromRevisions ''foo'' [''default'', ''canary''] =
       (''istiod.foo.svc'', [''istiod.foo.svc'', ''istiodcanary.foo.svc''])"
  by (simp add: makeDNSNamesFromRevisions_def Let_def)

text \<open>
  Claim C5. \<^const>\<open>Reconcile\<close> with an active issuer, in each of its five courses. When
  the fetch fails with a not-found error, the calls made are the fetch and exactly one
  create of the certificate named by the request with the desired specification, and
  the outcome is what the create returns: its error when it fails, no error when it
  succeeds. When the fetch fails with another error, the outcome is a failure carrying
  the message of that error, and the fetch is the only call. When the fetch succeeds,
  the calls made are the fetch and exactly one update (no patch) of the fetched
  certificate, with its metadata and status kept and its whole specification replaced
  by the desired one, and the outcome is what the update returns. The fields of the
  specification that \<^const>\<open>Reconcile\<close> does not set are zero in the desired
  specification, whatever the fetched certificate had in them.
\<close>

theorem Reconcile_create_or_update:
  assumes "issuerRef dicp = Some ref"
  shows "(\<forall>err w1 e w2.
            Get (certManagerClient dicp) (req_Name req) w = (Inl err, w1) \<and> IsNotFound err
            \<and> Create (certManagerClient dicp)
                  \<lparr>ObjectMeta = \<lparr>meta_Name = req_Name req, meta_Namespace = req_Namespace req,
                                 ResourceVersion = []\<rparr>,
                   Spec = desiredSpec dicp ref req, Status = zero_CertificateStatus\<rparr> w1
                = (Inl e, w2) \<longrightarrow>
            Reconcile dicp req (cs, w) =
              ((\<lparr>Requeue = False, RequeueAfter = 0\<rparr>, Some e),
               (cs @ [GetCall (req_Name req),
                      CreateCall
                        \<lparr>ObjectMeta = \<lparr>meta_Name = req_Name req, meta_Namespace = req_Namespace req,
                                       ResourceVersion = []\<rparr>,
                         Spec = desiredSpec dicp ref req, Status = zero_CertificateStatus\<rparr>],
                w2)))
       \<and> (\<forall>err w1 made w2.
            Get (certManagerClient dicp) (req_Name req) w = (Inl err, w1) \<and> IsNotFound err
            \<and> Create (certManagerClient dicp)
                  \<lparr>ObjectMeta = \<lparr>meta_Name = req_Name req, meta_Namespace = req_Namespace req,
                                 ResourceVersion = []\<rparr>,
                   Spec = desiredSpec dicp ref req, Status = zero_CertificateStatus\<rparr> w1
                = (Inr made, w2) \<longrightarrow>
            Reconcile dicp req (cs, w) =
              ((\<lparr>Requeue = False, RequeueAfter = 0\<rparr>, None),
               (cs @ [GetCall (req_Name req),
                      CreateCall
                        \<lparr>ObjectMeta = \<lparr>meta_Name = req_Name req, meta_Namespace = req_Namespace req,
                                       ResourceVersion = []\<rparr>,
                         Spec = desiredSpec dicp ref req, Status = zero_CertificateStatus\<rparr>],
                w2)))
       \<and> (\<forall>err w1.
            Get (certManagerClient dicp) (req_Name req) w = (Inl err, w1) \<and> \<not> IsNotFound err \<longrightarrow>
            Reconcile dicp req (cs, w) =
              ((\<lparr>Requeue = False, RequeueAfter = 0\<rparr>,
                Some (ErrorString (''failed to fetch cert: '' @ Error err))),
               (cs @ [GetCall (req_Name req)], w1)))
       \<and> (\<forall>cert w1 e w2.
            Get (certManagerClient dicp) (req_Name req) w = (Inr cert, w1)
            \<and> Update (certManagerClient dicp)
                  \<lparr>ObjectMeta = ObjectMeta cert, Spec = desiredSpec dicp ref req,
                   Status = Status cert\<rparr> w1
                = (Inl e, w2) \<longrightarrow>
            Reconcile dicp req (cs, w) =
              ((\<lparr>Requeue = False, RequeueAfter = 0\<rparr>, Some e),
               (cs @ [GetCall (req_Name req),
                      UpdateCall \<lparr>ObjectMeta = ObjectMeta cert, Spec = desiredSpec dicp ref req,
                                   Status = Status cert\<rparr>],
                w2)))
       \<and> (\<forall>cert w1 made w2.
            Get (certManagerClient dicp) (req_Name req) w = (Inr cert, w1)
            \<and> Update (certManagerClient dicp)
                  \<lparr>ObjectMeta = ObjectMeta cert, Spec = desiredSpec dicp ref req,
                   Status = Status cert\<rparr> w1
                = (Inr made, w2) \<longrightarrow>
            Reconcile dicp req (cs, w) =
              ((\<lparr>Requeue = False, RequeueAfter = 0\<rparr>, None),
               (cs @ [GetCall (req_Name req),
                      UpdateCall \<lparr>ObjectMeta = ObjectMeta cert, Spec = desiredSpec dicp ref req,
                                   Status = Status cert\<rparr>],
                w2)))
       \<and> LiteralSubject (desiredSpec dicp ref req) = []
       \<and> IPAddresses (desiredSpec dicp ref req) = []
       \<and> EmailAddresses (desiredSpec dicp ref req) = []
       \<and> IsCA (desiredSpec dicp ref req) = False
       \<and> Usages (desiredSpec dicp ref req) = []"
proof -
  have a: "\<And>err w1 r w2 c.
      Get (certManagerClient dicp) (req_Name req) w = (Inl err, w1) \<Longrightarrow> IsNotFound err \<Longrightarrow>
      c = \<lparr>ObjectMeta = \<lparr>meta_Name = req_Name req, meta_Namespace = req_Namespace req,
                          ResourceVersion = []\<rparr>,
            Spec = desiredSpec dicp ref req, Status = zero_CertificateStatus\<rparr> \<Longrightarrow>
      Create (certManagerClient dicp) c w1 = (r, w2) \<Longrightarrow>
      Reconcile dicp req (cs, w) =
        ((\<lparr>Requeue = False, RequeueAfter = 0\<rparr>, err_of r),
         (cs @ [GetCall (req_Name req), CreateCall c], w2))"
    using Reconcile_not_found [OF assms] by (simp add: zero_Result_def)
  have b: "\<And>err w1.
      Get (certManagerClient dicp) (req_Name req) w = (Inl err, w1) \<Longrightarrow> \<not> IsNotFound err \<Longrightarrow>
      Reconcile dicp req (cs, w) =
        ((\<lparr>Requeue = False, RequeueAfter = 0\<rparr>,
          Some (ErrorString (''failed to fetch cert: '' @ Error err))),
         (cs @ [GetCall (req_Name req)], w1))"
    using Reconcile_fetch_failed [OF assms] by (simp add: zero_Result_def)
  have c: "\<And>cert w1 r w2 u.
      Get (certManagerClient dicp) (req_Name req) w = (Inr cert, w1) \<Longrightarrow>
      u = \<lparr>ObjectMeta = ObjectMeta cert, Spec = desiredSpec dicp ref req, Status = Status cert\<rparr> \<Longrightarrow>
      Update (certManagerClient dicp) u w1 = (r, w2) \<Longrightarrow>
      Reconcile dicp req (cs, w) =
        ((\<lparr>Requeue = False, RequeueAfter = 0\<rparr>, err_of r),
         (cs @ [GetCall (req_Name req), UpdateCall u], w2))"
    using Reconcile_found [OF assms] by (simp add: zero_Result_def Certificate_Spec_update)
  show ?thesis
    apply (intro conjI allI impI)
             apply (elim conjE, drule (2) a [OF _ _ refl], simp)
            apply (elim conjE, drule (2) a [OF _ _ refl], simp)
           apply (elim conjE, drule (1) b, simp)
          apply (elim conjE, drule (1) c [OF _ refl], simp)
         apply (elim conjE, drule (1) c [OF _ refl], simp)
        apply (simp_all add: desiredSpec_unset_fields)
    done
qed


theorem Reconcile_create_or_update_witness:
  "issuerRef ex_dicp = Some ex_issuer
   \<and> Get (certManagerClient ex_dicp) (req_Name ex_req) [] =
       (Inl (StatusError StatusReasonNotFound ''certificate not found''), [])
   \<and> IsNotFound (StatusError StatusReasonNotFound ''certificate not found'')
   \<and> Reconcile ex_dicp ex_req ([], []) =
       ((\<lparr>Requeue = False, RequeueAfter = 0\<rparr>, None),
        ([GetCall ''istiod-dynamic'', CreateCall ex_created], [ex_created]))
   \<and> Reconcile ex_dicp other_req ([], []) =
       ((\<lparr>Requeue = False, RequeueAfter = 0\<rparr>,
         Some (StatusError StatusReasonBadRequest
                 ''request namespace does not match object namespace'')),
        ([GetCall ''istiod-dynamic'',
          CreateCall \<lparr>ObjectMeta = \<lparr>meta_Name = ''istiod-dynamic'', meta_Namespace = ''other'',
                                     ResourceVersion = []\<rparr>,
                       Spec = desiredSpec ex_dicp ex_issuer other_req,
                       Status = zero_CertificateStatus\<rparr>],
         []))
   \<and> issuerRef failing_dicp = Some ex_issuer2
   \<and> Get (certManagerClient failing_dicp) (req_Name ex_req) () =
       (Inl (StatusError StatusReasonInternalError ''store unavailable''), ())
   \<and> \<not> IsNotFound (StatusError StatusReasonInternalError ''store unavailable'')
   \<and> Reconcile failing_dicp ex_req ([], ()) =
       ((\<lparr>Requeue = False, RequeueAfter = 0\<rparr>,
         Some (ErrorString ''failed to fetch cert: store unavailable'')),
        ([GetCall ''istiod-dynamic''], ()))
   \<and> Get (certManagerClient ex_dicp) (req_Name ex_req) [stored_cert] = (Inr stored_cert, [stored_cert])
   \<and> IsCA (Spec stored_cert) \<and> IPAddresses (Spec stored_cert) = [''10.0.0.1'']
   \<and> Reconcile ex_dicp ex_req ([], [stored_cert]) =
       ((\<lparr>Requeue = False, RequeueAfter = 0\<rparr>, None),
        ([GetCall ''istiod-dynamic'',
          UpdateCall \<lparr>ObjectMeta = ObjectMeta stored_cert, Spec = ex_spec,
                       Status = Status stored_cert\<rparr>],
         [\<lparr>ObjectMeta = ObjectMeta stored_cert, Spec = ex_spec, Status = Status stored_cert\<rparr>]))
   \<and> \<not> IsCA ex_spec \<and> IPAddresses ex_spec = []
   \<and> issuerRef conflicting_dicp = Some ex_issuer
   \<and> Get (certManagerClient conflicting_dicp) (req_Name ex_req) [stored_cert] =
       (Inr stored_cert, [stored_cert])
   \<and> Reconcile conflicting_dicp ex_req ([], [stored_cert]) =
       ((\<lparr>Requeue = False, RequeueAfter = 0\<rparr>,
         Some (StatusError StatusReasonConflict ''the object has been modified'')),
        ([GetCall ''istiod-dynamic'',
          UpdateCall \<lparr>ObjectMeta = ObjectMeta stored_cert, Spec = ex_spec,
                       Status = Status stored_cert\<rparr>],
         [stored_cert]))"
proof -
  have i: "issuerRef ex_dicp = Some ex_issuer" by (simp add: ex_dicp_def)
  have j: "issuerRef failing_dicp = Some ex_issuer2" by (simp add: failing_dicp_def)
  have k: "issuerRef conflicting_dicp = Some ex_issuer" by (simp add: conflicting_dicp_def)
  have n: "IsNotFound (StatusError StatusReasonNotFound ''certificate not found'')" by simp
  have m: "\<not> IsNotFound (StatusError StatusReasonInternalError ''store unavailable'')" by simp
  have r: "req_Name ex_req = ''istiod-dynamic''" by (simp add: ex_req_def)
  have r': "req_Name other_req = ''istiod-dynamic''" "req_Namespace other_req = ''other''"
    by (simp_all add: other_req_def)
  have dk: "desiredSpec conflicting_dicp ex_issuer ex_req = ex_spec"
    by (simp add: desiredSpec_def makeDNSNamesFromRevisions_def Let_def RotationPolicyAlways_def
          conflicting_dicp_def ex_opts_def ex_req_def ex_spec_def)
  have g1: "Get (certManagerClient ex_dicp) (req_Name ex_req) [] =
              (Inl (StatusError StatusReasonNotFound ''certificate not found''), [])"
    by (simp add: ex_dicp_def fake_Certificates_def)
  have g1': "Get (certManagerClient ex_dicp) (req_Name other_req) [] =
              (Inl (StatusError StatusReasonNotFound ''certificate not found''), [])"
    by (simp add: ex_dicp_def fake_Certificates_def)
  have g2: "Get (certManagerClient failing_dicp) (req_Name ex_req) () =
              (Inl (StatusError StatusReasonInternalError ''store unavailable''), ())"
    by (simp add: failing_dicp_def failing_Certificates_def)
  have g3: "Get (certManagerClient ex_dicp) (req_Name ex_req) [stored_cert] =
              (Inr stored_cert, [stored_cert])"
    by (simp add: ex_dicp_def fake_Certificates_def cert_at_def stored_cert_def ex_req_def)
  have g4: "Get (certManagerClient conflicting_dicp) (req_Name ex_req) [stored_cert] =
              (Inr stored_cert, [stored_cert])"
    by (simp add: conflicting_dicp_def conflicting_Certificates_def fake_Certificates_def
          cert_at_def stored_cert_def ex_req_def)
  have c1: "Create (certManagerClient ex_dicp)
              \<lparr>ObjectMeta = \<lparr>meta_Name = req_Name ex_req, meta_Namespace = req_Namespace ex_req,
                             ResourceVersion = []\<rparr>,
               Spec = desiredSpec ex_dicp ex_issuer ex_req, Status = zero_CertificateStatus\<rparr> []
              = (Inr ex_created, [ex_created])"
    by (simp add: ex_desiredSpec)
       (simp add: ex_dicp_def fake_Certificates_def ex_req_def ex_created_def
          zero_CertificateStatus_def)
  have c2: "Create (certManagerClient ex_dicp)
              \<lparr>ObjectMeta = \<lparr>meta_Name = req_Name other_req, meta_Namespace = req_Namespace other_req,
                             ResourceVersion = []\<rparr>,
               Spec = desiredSpec ex_dicp ex_issuer other_req, Status = zero_CertificateStatus\<rparr> []
              = (Inl (StatusError StatusReasonBadRequest
                        ''request namespace does not match object namespace''), [])"
    by (simp add: ex_dicp_def fake_Certificates_def other_req_def)
  have u1: "Update (certManagerClient ex_dicp)
              \<lparr>ObjectMeta = ObjectMeta stored_cert, Spec = desiredSpec ex_dicp ex_issuer ex_req,
               Status = Status stored_cert\<rparr> [stored_cert]
              = (Inr \<lparr>ObjectMeta = ObjectMeta stored_cert, Spec = ex_spec,
                      Status = Status stored_cert\<rparr>,
                 [\<lparr>ObjectMeta = ObjectMeta stored_cert, Spec = ex_spec,
                   Status = Status stored_cert\<rparr>])"
    by (simp add: ex_desiredSpec)
       (simp add: ex_dicp_def fake_Certificates_def cert_at_def stored_cert_def)
  have u2: "Update (certManagerClient conflicting_dicp)
              \<lparr>ObjectMeta = ObjectMeta stored_cert,
               Spec = desiredSpec conflicting_dicp ex_issuer ex_req,
               Status = Status stored_cert\<rparr> [stored_cert]
              = (Inl (StatusError StatusReasonConflict ''the object has been modified''),
                 [stored_cert])"
    by (simp add: conflicting_dicp_def conflicting_Certificates_def fake_Certificates_def)
  note t1 = Reconcile_create_or_update [OF i, of ex_req "[]" "[]"]
  note t2 = Reconcile_create_or_update [OF i, of other_req "[]" "[]"]
  note t3 = Reconcile_create_or_update [OF j, of ex_req "()" "[]"]
  note t4 = Reconcile_create_or_update [OF i, of ex_req "[stored_cert]" "[]"]
  note t5 = Reconcile_create_or_update [OF k, of ex_req "[stored_cert]" "[]"]
  have a: "Reconcile ex_dicp ex_req ([], []) =
       ((\<lparr>Requeue = False, RequeueAfter = 0\<rparr>, None),
        ([GetCall ''istiod-dynamic'', CreateCall ex_created], [ex_created]))"
    using t1 g1 n c1 by (simp add: ex_desiredSpec r)
       (simp add: ex_req_def ex_created_def zero_CertificateStatus_def)
  have b: "Reconcile ex_dicp other_req ([], []) =
       ((\<lparr>Requeue = False, RequeueAfter = 0\<rparr>,
         Some (StatusError StatusReasonBadRequest
                 ''request namespace does not match object namespace'')),
        ([GetCall ''istiod-dynamic'',
          CreateCall \<lparr>ObjectMeta = \<lparr>meta_Name = ''istiod-dynamic'', meta_Namespace = ''other'',
                                     ResourceVersion = []\<rparr>,
                       Spec = desiredSpec ex_dicp ex_issuer other_req,
                       Status = zero_CertificateStatus\<rparr>],
         []))"
    using t2 g1' n c2 by (simp add: r')
  have c: "Reconcile failing_dicp ex_req ([], ()) =
       ((\<lparr>Requeue = False, RequeueAfter = 0\<rparr>,
         Some (ErrorString ''failed to fetch cert: store unavailable'')),
        ([GetCall ''istiod-dynamic''], ()))"
    using t3 g2 m by (simp add: r)
  have d: "Reconcile ex_dicp ex_req ([], [stored_cert]) =
       ((\<lparr>Requeue = False, RequeueAfter = 0\<rparr>, None),
        ([GetCall ''istiod-dynamic'',
          UpdateCall \<lparr>ObjectMeta = ObjectMeta stored_cert, Spec = ex_spec,
                       Status = Status stored_cert\<rparr>],
         [\<lparr>ObjectMeta = ObjectMeta stored_cert, Spec = ex_spec, Status = Status stored_cert\<rparr>]))"
    using t4 g3 u1 by (simp add: ex_desiredSpec r)
  have e: "Reconcile conflicting_dicp ex_req ([], [stored_cert]) =
       ((\<lparr>Requeue = False, RequeueAfter = 0\<rparr>,
         Some (StatusError StatusReasonConflict ''the object has been modified'')),
        ([GetCall ''istiod-dynamic'',
          UpdateCall \<lparr>ObjectMeta = ObjectMeta stored_cert, Spec = ex_spec,
                       Status = Status stored_cert\<rparr>],
         [stored_cert]))"
    using t5 g4 u2 by (simp add: dk r)
  have s: "IsCA (Spec stored_cert) \<and> IPAddresses (Spec stored_cert) = [''10.0.0.1'']"
    by (simp add: stored_cert_def zero_CertificateSpec_def)
  have s': "\<not> IsCA ex_spec \<and> IPAddresses ex_spec = []"
    by (simp add: ex_spec_def)
  from i j k n m g1 g2 g3 g4 a b c d e s s' show ?thesis by blast
qed

text \<open>
  Claim C6. \<^const>\<open>Reconcile\<close> while the active issuer reference is absent returns the zero
  result (no requeue) and no error, and makes no call to the store: the trace of calls
  and the store are as before.
\<close>

theorem Reconcile_absent_issuer_noop:
  assumes "issuerRef dicp = None"
  shows "Reconcile dicp req st = ((\<lparr>Requeue = False, RequeueAfter = 0\<rparr>, None), st)"
  using assms by (simp add: Reconcile_def zero_Result_def)

theorem Reconcile_absent_issuer_noop_witness:
  "issuerRef (ex_dicp\<lparr>initialIssuerRef := None, issuerRef := None\<rparr>) = None
   \<and> Reconcile (ex_dicp\<lparr>initialIssuerRef := None, issuerRef := None\<rparr>) ex_req ([], [stored_cert])
       = ((\<lparr>Requeue = False, RequeueAfter = 0\<rparr>, None), ([], [stored_cert]))"
  using Reconcile_absent_issuer_noop
          [of "ex_dicp\<lparr>initialIssuerRef := None, issuerRef := None\<rparr>" ex_req "([], [stored_cert])"]
  by simp

text \<open>
  Claim C7. The desired specification that \<^const>\<open>Reconcile\<close> assembles has the key rotation
  policy \<^verbatim>\<open>Always\<close>, the secret name \<^verbatim>\<open>istiod-tls\<close>, the revision history limit 1, the
  single URI \<^verbatim>\<open>spiffe://<trustDomain>/ns/<namespace>/sa/istiod-service-account\<close> of the
  request's namespace, the active issuer reference, and as DNS names the names derived
  from the revisions followed by the additional DNS names; every certificate that
  \<^const>\<open>Reconcile\<close> writes to the store carries this specification.
\<close>

theorem Reconcile_desiredSpec_constants:
  assumes "issuerRef dicp = Some ref"
  shows "map_option RotationPolicy (PrivateKey (desiredSpec dicp ref req)) = Some ''Always''
       \<and> SecretName (desiredSpec dicp ref req) = ''istiod-tls''
       \<and> RevisionHistoryLimit (desiredSpec dicp ref req) = Some 1
       \<and> URIs (desiredSpec dicp ref req) =
           [''spiffe://'' @ trustDomain dicp @ ''/ns/'' @ req_Namespace req
              @ ''/sa/istiod-service-account'']
       \<and> IssuerRef (desiredSpec dicp ref req) = ref
       \<and> DNSNames (desiredSpec dicp ref req) =
           snd (makeDNSNamesFromRevisions (req_Namespace req) (IstioRevisions (opts dicp)))
             @ AdditionalDNSNames (opts dicp)
       \<and> (\<forall>c \<in> set (writes (fst (snd (Reconcile dicp req ([], w))))).
             Spec c = desiredSpec dicp ref req)"
  using Reconcile_writes_Spec [OF assms] by (simp add: desiredSpec_fields)

theorem Reconcile_desiredSpec_constants_witness:
  "issuerRef ex_dicp = Some ex_issuer
   \<and> writes (fst (snd (Reconcile ex_dicp ex_req ([], [])))) = [ex_created]
   \<and> Spec ex_created = desiredSpec ex_dicp ex_issuer ex_req
   \<and> map_option RotationPolicy (PrivateKey (Spec ex_created)) = Some ''Always''
   \<and> SecretName (Spec ex_created) = ''istiod-tls''
   \<and> RevisionHistoryLimit (Spec ex_created) = Some 1
   \<and> URIs (Spec ex_created) = [''spiffe://cluster.local/ns/istio-system/sa/istiod-service-account'']
   \<and> IssuerRef (Spec ex_created) = ex_issuer
   \<and> DNSNames (Spec ex_created) =
       [''istiod.istio-system.svc'', ''istiodcanary.istio-system.svc'', ''extra.example.com'']"
  using Reconcile_desiredSpec_constants [OF ex_issuerRef, of ex_req "[]"]
  by (simp add: ex_first_Reconcile ex_issuerRef ex_desiredSpec ex_created_def ex_spec_def)

text \<open>
  Claim C8. When the initial issuer reference given to \<^const>\<open>New\<close> is not absent, the active
  issuer reference of the provisioner built is that reference, and it is not absent
  after any sequence of calls of \<^const>\<open>handleNewIssuer\<close>, absent updates included.
\<close>

theorem issuerRef_never_cleared:
  assumes "New newForConfig options (Some r) td = Inr dicp"
  shows "issuerRef dicp = Some r
       \<and> (\<forall>us. issuerRef (foldl handleNewIssuer dicp us) \<noteq> None)"
proof -
  from assms have "initialIssuerRef dicp = Some r \<and> issuerRef dicp = Some r"
    by (auto simp: New_def split: sum.splits)
  then show ?thesis by (simp add: foldl_handleNewIssuer_issuerRef_present)
qed

theorem issuerRef_never_cleared_witness:
  "New (Inr fake_Certificates) ex_opts (Some ex_issuer) ''cluster.local'' = Inr ex_dicp
   \<and> issuerRef ex_dicp = Some ex_issuer
   \<and> issuerRef (foldl handleNewIssuer ex_dicp [None, Some ex_issuer2, None]) = Some ex_issuer"
proof -
  have n: "New (Inr fake_Certificates) ex_opts (Some ex_issuer) ''cluster.local'' = Inr ex_dicp"
    by (simp add: New_def ex_dicp_def ex_opts_def)
  from issuerRef_never_cleared [OF n] n show ?thesis
    by (simp add: handleNewIssuer_def ex_dicp_def)
qed


text \<open>
  Claim C9. The desired specification is a function of the active issuer reference, the
  options, the trust domain and the namespace of the request alone: two runs of
  \<^const>\<open>Reconcile\<close> that agree on these four, whatever the state of the store, the client,
  the name requested and the rest of the provisioner, write certificates with the same
  specification.
\<close>

theorem Reconcile_desiredSpec_deterministic:
  assumes "issuerRef d1 = issuerRef d2" and "opts d1 = opts d2"
    and "trustDomain d1 = trustDomain d2" and "req_Namespace r1 = req_Namespace r2"
    and "c1 \<in> set (writes (fst (snd (Reconcile d1 r1 ([], w1)))))"
    and "c2 \<in> set (writes (fst (snd (Reconcile d2 r2 ([], w2)))))"
  shows "Spec c1 = Spec c2"
proof (cases "issuerRef d1")
  case None
  with assms(5) show ?thesis by (simp add: Reconcile_absent)
next
  case (Some ref)
  then have "Spec c1 = desiredSpec d1 ref r1"
    using assms(5) by (rule Reconcile_writes_Spec)
  moreover have "Spec c2 = desiredSpec d2 ref r2"
    using Some assms(1,6) by (simp add: Reconcile_writes_Spec)
  ultimately show ?thesis
    using desiredSpec_cong [OF assms(2,3,4)] by simp
qed

theorem Reconcile_desiredSpec_deterministic_witness:
  "issuerRef ex_dicp = issuerRef ex_dicp \<and> opts ex_dicp = opts ex_dicp
   \<and> trustDomain ex_dicp = trustDomain ex_dicp \<and> req_Namespace ex_req = req_Namespace ex_req
   \<and> writes (fst (snd (Reconcile ex_dicp ex_req ([], [])))) = [ex_created]
   \<and> snd (snd (Reconcile ex_dicp ex_req ([], []))) = [ex_created]
   \<and> writes (fst (snd (Reconcile ex_dicp ex_req ([], [ex_created])))) = [ex_created]
   \<and> writes (fst (snd (Reconcile ex_dicp ex_req ([], [stored_cert])))) = [stored_cert\<lparr>Spec := ex_spec\<rparr>]
   \<and> Spec ex_created = Spec (stored_cert\<lparr>Spec := ex_spec\<rparr>)"
proof -
  have g: "Get (certManagerClient ex_dicp) (req_Name ex_req) [stored_cert] =
             (Inr stored_cert, [stored_cert])"
    by (simp add: ex_dicp_def fake_Certificates_def cert_at_def stored_cert_def ex_req_def)
  have u: "writes (fst (snd (Reconcile ex_dicp ex_req ([], [stored_cert])))) =
             [stored_cert\<lparr>Spec := ex_spec\<rparr>]"
    using Reconcile_found [OF ex_issuerRef g refl, of "[]"] by (simp add: ex_desiredSpec)
  have c: "writes (fst (snd (Reconcile ex_dicp ex_req ([], [])))) = [ex_created]"
    by (simp add: ex_first_Reconcile)
  from Reconcile_desiredSpec_deterministic
         [of ex_dicp ex_dicp ex_req ex_req ex_created "[]" "stored_cert\<lparr>Spec := ex_spec\<rparr>"
             "[stored_cert]"] c u
  show ?thesis by (simp add: ex_first_Reconcile ex_second_Reconcile)
qed


text \<open>
  Claim C10, as amended. \<^const>\<open>Reconcile\<close> does not compare the request with the
  configured certificate name and namespace: with its client given, its result is the
  same whatever these two options are; \<^const>\<open>New\<close> binds the client to the configured
  namespace, and provisioners built by \<^const>\<open>New\<close> that differ in the configured name
  alone reconcile alike. The comparison with the configured identity is the predicate
  registered by \<^verbatim>\<open>AddControllersToManager\<close>. For every request \<open>(ns, n)\<close> and an
  active issuer, \<^const>\<open>Reconcile\<close> builds the SPIFFE URI and the DNS names from \<open>ns\<close>
  and fetches by \<open>n\<close> through its client. When the fetch reports not-found, it issues
  one create call for an object named \<open>(ns, n)\<close>; when the fetch fails otherwise, it
  issues no write; when the fetch succeeds, it issues one update call for the fetched
  object, under the name and namespace that the fetched object has, with the
  specification built from \<open>ns\<close>.
\<close>

theorem Reconcile_checks_no_identity:
  assumes "issuerRef dicp = Some ref"
  shows "(\<forall>cn cns. Reconcile (dicp\<lparr>opts := (opts dicp)\<lparr>CertificateName := cn,
                                                        CertificateNamespace := cns\<rparr>\<rparr>)
                      req ([], w) = Reconcile dicp req ([], w))
       \<and> (\<forall>cmClient options init td d.
             New (Inr cmClient) options init td = Inr d \<longrightarrow>
             certManagerClient d = cmClient (CertificateNamespace options))
       \<and> (\<forall>cmClient options init td cn d d'.
             New (Inr cmClient) options init td = Inr d
             \<and> New (Inr cmClient) (options\<lparr>CertificateName := cn\<rparr>) init td = Inr d' \<longrightarrow>
             Reconcile d' req ([], w) = Reconcile d req ([], w))
       \<and> (\<forall>obj. certPredicate dicp obj =
             (meta_Name (ObjectMeta obj) = CertificateName (opts dicp)
              \<and> meta_Namespace (ObjectMeta obj) = CertificateNamespace (opts dicp)))
       \<and> URIs (desiredSpec dicp ref req) =
           [''spiffe://'' @ trustDomain dicp @ ''/ns/'' @ req_Namespace req
              @ ''/sa/istiod-service-account'']
       \<and> DNSNames (desiredSpec dicp ref req) =
           snd (makeDNSNamesFromRevisions (req_Namespace req) (IstioRevisions (opts dicp)))
             @ AdditionalDNSNames (opts dicp)
       \<and> (\<forall>err w1.
             Get (certManagerClient dicp) (req_Name req) w = (Inl err, w1) \<and> IsNotFound err \<longrightarrow>
             fst (snd (Reconcile dicp req ([], w))) =
               [GetCall (req_Name req),
                CreateCall
                  \<lparr>ObjectMeta = \<lparr>meta_Name = req_Name req, meta_Namespace = req_Namespace req,
                                 ResourceVersion = []\<rparr>,
                   Spec = desiredSpec dicp ref req, Status = zero_CertificateStatus\<rparr>])
       \<and> (\<forall>err w1.
             Get (certManagerClient dicp) (req_Name req) w = (Inl err, w1) \<and> \<not> IsNotFound err \<longrightarrow>
             fst (snd (Reconcile dicp req ([], w))) = [GetCall (req_Name req)])
       \<and> (\<forall>cert w1.
             Get (certManagerClient dicp) (req_Name req) w = (Inr cert, w1) \<longrightarrow>
             fst (snd (Reconcile dicp req ([], w))) =
               [GetCall (req_Name req),
                UpdateCall \<lparr>ObjectMeta = ObjectMeta cert, Spec = desiredSpec dicp ref req,
                             Status = Status cert\<rparr>])"
proof -
  have a: "\<forall>err w1.
             Get (certManagerClient dicp) (req_Name req) w = (Inl err, w1) \<and> IsNotFound err \<longrightarrow>
             fst (snd (Reconcile dicp req ([], w))) =
               [GetCall (req_Name req),
                CreateCall
                  \<lparr>ObjectMeta = \<lparr>meta_Name = req_Name req, meta_Namespace = req_Namespace req,
                                 ResourceVersion = []\<rparr>,
                   Spec = desiredSpec dicp ref req, Status = zero_CertificateStatus\<rparr>]"
    using Reconcile_not_found [OF assms _ _ refl, of req w _ _ "[]"] by simp
  have b: "\<forall>err w1.
             Get (certManagerClient dicp) (req_Name req) w = (Inl err, w1) \<and> \<not> IsNotFound err \<longrightarrow>
             fst (snd (Reconcile dicp req ([], w))) = [GetCall (req_Name req)]"
    using Reconcile_fetch_failed [OF assms, of req w _ _ "[]"] by simp
  have c: "\<forall>cert w1.
             Get (certManagerClient dicp) (req_Name req) w = (Inr cert, w1) \<longrightarrow>
             fst (snd (Reconcile dicp req ([], w))) =
               [GetCall (req_Name req),
                UpdateCall \<lparr>ObjectMeta = ObjectMeta cert, Spec = desiredSpec dicp ref req,
                             Status = Status cert\<rparr>]"
    using Reconcile_found [OF assms _ refl, of req w _ _ "[]"]
    by (simp add: Certificate_Spec_update)
  have n: "\<forall>cmClient options init td d.
             New (Inr cmClient) options init td = Inr d \<longrightarrow>
             certManagerClient d = cmClient (CertificateNamespace options)"
    by (auto simp: New_binds_client)
  have m: "\<forall>cmClient options init td cn d d'.
             New (Inr cmClient) options init td = Inr d
             \<and> New (Inr cmClient) (options\<lparr>CertificateName := cn\<rparr>) init td = Inr d' \<longrightarrow>
             Reconcile d' req ([], w) = Reconcile d req ([], w)"
    using New_CertificateName_irrelevant by blast
  from a b c n m show ?thesis
    by (simp add: Reconcile_opts_identity desiredSpec_fields certPredicate_def)
qed


theorem Reconcile_checks_no_identity_witness:
  "issuerRef ex_dicp = Some ex_issuer
   \<and> New (Inr fake_Certificates) ex_opts (Some ex_issuer) ''cluster.local'' = Inr ex_dicp
   \<and> certManagerClient ex_dicp = fake_Certificates (CertificateNamespace ex_opts)
   \<and> Get (certManagerClient ex_dicp) (req_Name other_name_req) [] =
       (Inl (StatusError StatusReasonNotFound ''certificate not found''), [])
   \<and> IsNotFound (StatusError StatusReasonNotFound ''certificate not found'')
   \<and> fst (snd (Reconcile ex_dicp other_name_req ([], []))) =
       [GetCall ''ingress-cert'', CreateCall other_name_created]
   \<and> \<not> certPredicate ex_dicp other_name_created
   \<and> Get (certManagerClient ex_dicp) (req_Name other_req) [stored_cert] =
       (Inr stored_cert, [stored_cert])
   \<and> fst (snd (Reconcile ex_dicp other_req ([], [stored_cert]))) =
       [GetCall ''istiod-dynamic'',
        UpdateCall \<lparr>ObjectMeta = ObjectMeta stored_cert,
                     Spec = desiredSpec ex_dicp ex_issuer other_req,
                     Status = Status stored_cert\<rparr>]
   \<and> meta_Namespace (ObjectMeta stored_cert) = ''istio-system''
   \<and> req_Namespace other_req = ''other''
   \<and> Reconcile ex_dicp other_req ([], []) =
       ((\<lparr>Requeue = False, RequeueAfter = 0\<rparr>,
         Some (StatusError StatusReasonBadRequest
                 ''request namespace does not match object namespace'')),
        ([GetCall ''istiod-dynamic'',
          CreateCall \<lparr>ObjectMeta = \<lparr>meta_Name = ''istiod-dynamic'', meta_Namespace = ''other'',
                                     ResourceVersion = []\<rparr>,
                       Spec = desiredSpec ex_dicp ex_issuer other_req,
                       Status = zero_CertificateStatus\<rparr>],
         []))
   \<and> issuerRef failing_dicp = Some ex_issuer2
   \<and> Get (certManagerClient failing_dicp) (req_Name ex_req) () =
       (Inl (StatusError StatusReasonInternalError ''store unavailable''), ())
   \<and> \<not> IsNotFound (StatusError StatusReasonInternalError ''store unavailable'')
   \<and> fst (snd (Reconcile failing_dicp ex_req ([], ()))) = [GetCall ''istiod-dynamic'']
   \<and> Reconcile (ex_dicp\<lparr>opts := (opts ex_dicp)\<lparr>CertificateName := ''ingress-cert'',
                                                 CertificateNamespace := ''istio-system''\<rparr>\<rparr>)
        other_name_req ([], []) = Reconcile ex_dicp other_name_req ([], [])"
proof -
  have j: "issuerRef failing_dicp = Some ex_issuer2" by (simp add: failing_dicp_def)
  have nw: "New (Inr fake_Certificates) ex_opts (Some ex_issuer) ''cluster.local'' = Inr ex_dicp"
    by (simp add: New_def ex_dicp_def ex_opts_def)
  have n: "IsNotFound (StatusError StatusReasonNotFound ''certificate not found'')" by simp
  have m: "\<not> IsNotFound (StatusError StatusReasonInternalError ''store unavailable'')" by simp
  have g1: "Get (certManagerClient ex_dicp) (req_Name other_name_req) [] =
              (Inl (StatusError StatusReasonNotFound ''certificate not found''), [])"
    by (simp add: ex_dicp_def fake_Certificates_def)
  have g2: "Get (certManagerClient ex_dicp) (req_Name other_req) [stored_cert] =
              (Inr stored_cert, [stored_cert])"
    by (simp add: ex_dicp_def fake_Certificates_def cert_at_def stored_cert_def other_req_def)
  have g3: "Get (certManagerClient failing_dicp) (req_Name ex_req) () =
              (Inl (StatusError StatusReasonInternalError ''store unavailable''), ())"
    by (simp add: failing_dicp_def failing_Certificates_def)
  have p: "\<not> certPredicate ex_dicp other_name_created"
    by (simp add: certPredicate_def other_name_created_def ex_dicp_def ex_opts_def)
  have e: "\<lparr>ObjectMeta = \<lparr>meta_Name = req_Name other_name_req,
                          meta_Namespace = req_Namespace other_name_req, ResourceVersion = []\<rparr>,
            Spec = desiredSpec ex_dicp ex_issuer other_name_req, Status = zero_CertificateStatus\<rparr>
           = other_name_created"
    by (simp only: other_name_desiredSpec)
       (simp add: other_name_created_def other_name_req_def zero_CertificateStatus_def)
  have q: "meta_Namespace (ObjectMeta stored_cert) = ''istio-system''"
    "req_Namespace other_req = ''other''"
    "req_Name other_req = ''istiod-dynamic''"
    "req_Name ex_req = ''istiod-dynamic''"
    "req_Name other_name_req = ''ingress-cert''"
    by (simp_all add: stored_cert_def other_req_def ex_req_def other_name_req_def)
  note t1 = Reconcile_checks_no_identity [OF ex_issuerRef, where req = other_name_req and w = "[]"]
  note t2 = Reconcile_checks_no_identity [OF ex_issuerRef, where req = other_req and w = "[stored_cert]"]
  note t3 = Reconcile_checks_no_identity [OF j, where req = ex_req and w = "()"]
  from t1 nw have b: "certManagerClient ex_dicp = fake_Certificates (CertificateNamespace ex_opts)"
    by blast
  from t1 g1 n have a0: "fst (snd (Reconcile ex_dicp other_name_req ([], []))) =
       [GetCall (req_Name other_name_req),
        CreateCall
          \<lparr>ObjectMeta = \<lparr>meta_Name = req_Name other_name_req,
                         meta_Namespace = req_Namespace other_name_req, ResourceVersion = []\<rparr>,
           Spec = desiredSpec ex_dicp ex_issuer other_name_req, Status = zero_CertificateStatus\<rparr>]"
    by blast
  from a0 [unfolded e] have a: "fst (snd (Reconcile ex_dicp other_name_req ([], []))) =
       [GetCall ''ingress-cert'', CreateCall other_name_created]"
    by (simp add: q)
  from t2 g2 have c0: "fst (snd (Reconcile ex_dicp other_req ([], [stored_cert]))) =
       [GetCall (req_Name other_req),
        UpdateCall \<lparr>ObjectMeta = ObjectMeta stored_cert,
                     Spec = desiredSpec ex_dicp ex_issuer other_req,
                     Status = Status stored_cert\<rparr>]"
    by blast
  then have c: "fst (snd (Reconcile ex_dicp other_req ([], [stored_cert]))) =
       [GetCall ''istiod-dynamic'',
        UpdateCall \<lparr>ObjectMeta = ObjectMeta stored_cert,
                     Spec = desiredSpec ex_dicp ex_issuer other_req,
                     Status = Status stored_cert\<rparr>]"
    by (simp add: q)
  from t3 g3 m have d0: "fst (snd (Reconcile failing_dicp ex_req ([], ()))) = [GetCall (req_Name ex_req)]"
    by blast
  then have d: "fst (snd (Reconcile failing_dicp ex_req ([], ()))) = [GetCall ''istiod-dynamic'']"
    by (simp add: q)
  from t1 have "\<forall>cn cns. Reconcile (ex_dicp\<lparr>opts := (opts ex_dicp)\<lparr>CertificateName := cn,
                                                 CertificateNamespace := cns\<rparr>\<rparr>)
        other_name_req ([], []) = Reconcile ex_dicp other_name_req ([], [])"
    by (rule conjunct1)
  then have i: "Reconcile (ex_dicp\<lparr>opts := (opts ex_dicp)\<lparr>CertificateName := ''ingress-cert'',
                                                 CertificateNamespace := ''istio-system''\<rparr>\<rparr>)
        other_name_req ([], []) = Reconcile ex_dicp other_name_req ([], [])"
    by simp
  from ex_issuerRef nw b g1 n a p g2 c q(1,2) other_Reconcile_refused j g3 m d i
  show ?thesis by blast
qed

text \<open>
  As first stated, the claim has \<^const>\<open>Reconcile\<close> create or update the resource named by
  the request, for every request. The client is the one of the configured namespace
  (\<^const>\<open>New\<close>), so a request for the namespace \<^verbatim>\<open>other\<close> fetches and updates the
  certificate of the namespace \<^verbatim>\<open>istio-system\<close>.
\<close>

theorem Reconcile_updates_fetched_identity_counterexample:
  "New (Inr fake_Certificates) ex_opts (Some ex_issuer) ''cluster.local'' = Inr ex_dicp
   \<and> writes (fst (snd (Reconcile ex_dicp other_req ([], [stored_cert])))) =
       [stored_cert\<lparr>Spec := desiredSpec ex_dicp ex_issuer other_req\<rparr>]
   \<and> meta_Namespace (ObjectMeta (stored_cert\<lparr>Spec := desiredSpec ex_dicp ex_issuer other_req\<rparr>))
       \<noteq> req_Namespace other_req"
  by (simp add: other_Reconcile)
     (simp add: New_def ex_dicp_def ex_opts_def stored_cert_def other_req_def)


end
